theory Spec2Isabelle
  imports Complex_Main "HOL-Library.AList"
begin

section \<open>Numbers and objects\<close>

text \<open>
  The program is TypeScript; every quantity is a JavaScript number, a binary64 value of
  IEEE 754. The model takes the finite numbers as \<^typ>\<open>real\<close>; zero has no sign.
  \<open>Math.round\<close> rounds to the nearest integer with ties towards plus infinity,
  \<open>Math.ceil\<close> is the ceiling. An optional property or argument is an \<open>option\<close>,
  \<open>None\<close> standing for \<open>undefined\<close>.

  In \<open>CalculateExpectedDrops\<close> and \<open>CalculateDetailedDrops\<close> the products, sums and
  differences that feed \<open>Math.round\<close> are rounded to binary64 by \<open>fl\<close> below,
  operation by operation, and the literals \<open>0.01\<close> and \<open>0.2\<close> are the nearest
  binary64 values, because there the last bit decides the result:
  \<open>(105 + 100) * 0.01\<close> is \<open>2.0499999999999998\<close>, not \<open>2.05\<close>. Sums and differences
  of the whole numbers so obtained, and the sums of the fortune aggregator, are exact in
  binary64 as long as they stay below \<open>2^53\<close>, and are modelled as exact; so is the
  quotient of the inverse calculation, of which only the finiteness is at issue.

  A \<open>Record<string, number>\<close> that the code fills by assignment is an association
  list in insertion order: \<open>o[k] = v\<close> is \<^const>\<open>AList.update\<close> (an existing key keeps
  its place and takes the new value, a new key goes to the end), \<open>delete o[k]\<close> is
  \<^const>\<open>AList.delete\<close>, \<open>o[k]\<close> is \<^const>\<open>map_of\<close>, and \<open>Object.values(o)\<close> is
  \<open>map snd\<close>.
\<close>

definition Math_round :: "real \<Rightarrow> real" where
  "Math_round x = of_int \<lfloor>x + 1 / 2\<rfloor>"

definition truthy :: "real option \<Rightarrow> bool" where
  \<comment> \<open>\<open>!x\<close> is true of \<open>undefined\<close> and of \<open>0\<close>\<close>
  "truthy x = (case x of None \<Rightarrow> False | Some v \<Rightarrow> v \<noteq> 0)"

definition sumValues :: "(string \<times> real) list \<Rightarrow> real" where
  \<comment> \<open>\<open>Object.values(o).reduce((a, b) => a + b, 0)\<close>\<close>
  "sumValues obj = foldl (\<lambda>a b. a + b) 0 (map snd obj)"

text \<open>
  Rounding to binary64, to nearest with ties to the even significand. A positive finite
  value has the form \<open>m * 2^e\<close> with \<open>2^52 \<le> m < 2^53\<close>, or \<open>m < 2^52\<close> and
  \<open>e = -1074\<close> for a subnormal one. \<open>floorLog2 a\<close> is the exponent of the power of
  two at or below \<open>a\<close>, computed from the bit length of the integer part of \<open>a\<close> or
  of the integer just below \<open>1 / a\<close>; \<open>binade a\<close> is the exponent \<open>e\<close> of the unit in
  the last place. Overflow to an infinity, which needs a magnitude of \<open>2^1024\<close>, is
  not modelled.
\<close>

function bitLength :: "int \<Rightarrow> nat" where
  "bitLength n = (if n \<le> 0 then 0 else Suc (bitLength (n div 2)))"
  by pat_completeness auto
termination
  by (relation "measure nat") auto

declare bitLength.simps [simp del]

definition floorLog2 :: "real \<Rightarrow> int" where
  "floorLog2 a =
     (if 1 \<le> a then int (bitLength \<lfloor>a\<rfloor>) - 1
      else - int (bitLength (\<lceil>1 / a\<rceil> - 1)))"

definition pow2 :: "int \<Rightarrow> real" where
  "pow2 e = (if 0 \<le> e then 2 ^ nat e else 1 / 2 ^ nat (- e))"

definition roundHalfEven :: "real \<Rightarrow> int" where
  "roundHalfEven x =
     (let n = \<lfloor>x\<rfloor>; r = x - of_int n
      in if r < 1 / 2 then n
         else if 1 / 2 < r then n + 1
         else if even n then n else n + 1)"

definition binade :: "real \<Rightarrow> int" where
  "binade a = max (floorLog2 a - 52) (- 1074)"

definition fl :: "real \<Rightarrow> real" where
  "fl x =
     (if x = 0 then 0
      else sgn x * (of_int (roundHalfEven (\<bar>x\<bar> / pow2 (binade \<bar>x\<bar>)))
                    * pow2 (binade \<bar>x\<bar>)))"

text \<open>
  Only the inverse calculation divides, and its divisor can be zero. Its result is a
  JavaScript number in full: finite, an infinity, or NaN.
\<close>

datatype jsnum = Finite real | PosInfinity | NegInfinity | NaN

definition js_divide :: "real \<Rightarrow> real \<Rightarrow> jsnum" where
  \<comment> \<open>\<open>x / y\<close> on finite operands\<close>
  "js_divide x y =
     (if y \<noteq> 0 then Finite (x / y)
      else if 0 < x then PosInfinity
      else if x < 0 then NegInfinity
      else NaN)"

fun js_minus :: "jsnum \<Rightarrow> real \<Rightarrow> jsnum" where
  "js_minus (Finite x) y = Finite (x - y)"
| "js_minus PosInfinity y = PosInfinity"
| "js_minus NegInfinity y = NegInfinity"
| "js_minus NaN y = NaN"

fun Math_ceil :: "jsnum \<Rightarrow> jsnum" where
  "Math_ceil (Finite x) = Finite (of_int \<lceil>x\<rceil>)"
| "Math_ceil PosInfinity = PosInfinity"
| "Math_ceil NegInfinity = NegInfinity"
| "Math_ceil NaN = NaN"

fun isFinite :: "jsnum \<Rightarrow> bool" where
  "isFinite (Finite x) = True"
| "isFinite PosInfinity = False"
| "isFinite NegInfinity = False"
| "isFinite NaN = False"


section \<open>Crops (src/constants/crops.ts)\<close>

datatype Crop =
  Cactus | Carrot | CocoaBeans | Melon | Mushroom | NetherWart
  | Potato | Pumpkin | SugarCane | Wheat | Seeds

record CropInfo =
  name :: string
  npc :: real
  drops :: real

fun CROP_INFO :: "Crop \<Rightarrow> CropInfo" where
  "CROP_INFO Cactus = \<lparr>name = ''Cactus'', npc = 3, drops = 2\<rparr>"
| "CROP_INFO Carrot = \<lparr>name = ''Carrot'', npc = 3, drops = 3\<rparr>"
| "CROP_INFO CocoaBeans = \<lparr>name = ''Cocoa Beans'', npc = 3, drops = 3\<rparr>"
| "CROP_INFO Melon = \<lparr>name = ''Melon'', npc = 2, drops = 5\<rparr>"
| "CROP_INFO Mushroom = \<lparr>name = ''Mushroom'', npc = 10, drops = 1\<rparr>"
| "CROP_INFO NetherWart = \<lparr>name = ''Nether Wart'', npc = 4, drops = 5 / 2\<rparr>"
| "CROP_INFO Potato = \<lparr>name = ''Potato'', npc = 3, drops = 3\<rparr>"
| "CROP_INFO Pumpkin = \<lparr>name = ''Pumpkin'', npc = 10, drops = 1\<rparr>"
| "CROP_INFO SugarCane = \<lparr>name = ''Sugar Cane'', npc = 2, drops = 4\<rparr>"
| "CROP_INFO Wheat = \<lparr>name = ''Wheat'', npc = 6, drops = 1\<rparr>"
| "CROP_INFO Seeds = \<lparr>name = ''Seeds'', npc = 3, drops = 3 / 2\<rparr>"

text \<open>
  \<open>ratecalc.ts\<close> destructures two further properties, \<open>breaks\<close> and
  \<open>replenish\<close>, from a crop's entry. The interface \<open>CropInfo\<close> does not declare
  them and no entry of \<open>CROP_INFO\<close> sets them, so reading them gives \<open>undefined\<close>.
\<close>

definition breaks :: "CropInfo \<Rightarrow> real option" where
  "breaks info = None"

definition replenish :: "CropInfo \<Rightarrow> bool option" where
  "replenish info = None"

definition GetCropInfo :: "Crop \<Rightarrow> CropInfo" where
  \<comment> \<open>\<open>CROP_INFO[crop] ?? {}\<close>: the table has an entry for every member of the enum\<close>
  "GetCropInfo crop = CROP_INFO crop"

definition crops :: "Crop list" where
  "crops = [Cactus, Carrot, CocoaBeans, Melon, Mushroom, NetherWart,
            Potato, Pumpkin, SugarCane, Wheat, Seeds]"


section \<open>Tables and helpers that the sources import\<close>

text \<open>
  The reforge, tool and enchantment tables, the rarity and stat enumerations, the
  per-crop maximum fortune, the perk-bonus and special-crop averages, and the lore helpers
  are imported by the two modules from other files of the package. They are parameters
  of the model, collected in one record. A table indexed by strings is
  a partial map; an object whose optional property is only ever read through \<open>?.\<close>
  is modelled by the property itself, absent when the object is. Where several objects
  have a property of the same name (\<open>name\<close>, \<open>crop\<close>, \<open>type\<close>, \<open>stats\<close>,
  \<open>blocksBroken\<close>, \<open>collection\<close>), the fields of all but one carry a prefix.
\<close>

type_synonym Rarity = string

datatype Stat = FarmingFortune | OtherStat string

type_synonym Stats = "Stat \<rightharpoonup> real"

record ReforgeTier =
  stats :: Stats

record Reforge =
  reforgeName :: "string option"
  tiers :: "Rarity \<rightharpoonup> ReforgeTier"

datatype FarmingToolType = MathematicalHoe | OtherToolType

record FarmingToolInfo =
  toolCrop :: Crop
  toolType :: FarmingToolType
  baseStats :: Stats
  toolStats :: "Rarity \<rightharpoonup> Stats"

record FarmingEnchant =
  enchantName :: string
  levels :: "int \<rightharpoonup> Stats"
  multipliedLevels :: "int \<rightharpoonup> Stats"

record SpecialCrops =
  specialType :: string
  specialAmount :: real
  specialNpc :: real

record Tables =
  MAX_CROP_FORTUNE :: "Crop \<rightharpoonup> real"
  BEST_FARMING_TOOLS_maxRarity :: "Crop \<rightharpoonup> Rarity"
  Rarity_Mythic :: Rarity
  REFORGES :: "string \<rightharpoonup> Reforge"
  CalculateMelonPerkBonus :: "real \<Rightarrow> real"
  CalculatePumpkinPerkBonus :: "real \<Rightarrow> real"
  CalculateAverageSpecialCrops :: "real \<Rightarrow> Crop \<Rightarrow> real \<Rightarrow> SpecialCrops"
  FARMING_TOOLS :: "string \<rightharpoonup> FarmingToolInfo"
  FARMING_ENCHANTS :: "string \<rightharpoonup> FarmingEnchant"
  TURBO_ENCHANTS :: "string \<rightharpoonup> Crop"
  TURBO_ENCHANT_FORTUNE :: real
  GetRarityFromLore :: "string list \<Rightarrow> Rarity option"
  PreviousRarity :: "Rarity option \<Rightarrow> Rarity option"
  ExtractNumberFromLine :: "string \<Rightarrow> real option"
  ToNumber :: "string \<Rightarrow> real option"

definition statOr0 :: "Stats option \<Rightarrow> real" where
  \<comment> \<open>\<open>row?.[Stat.FarmingFortune] ?? 0\<close>\<close>
  "statOr0 row =
     (case row of None \<Rightarrow> 0
      | Some r \<Rightarrow> (case r FarmingFortune of None \<Rightarrow> 0 | Some v \<Rightarrow> v))"

definition reforgeTierFortune :: "Tables \<Rightarrow> string \<Rightarrow> Rarity \<Rightarrow> real" where
  \<comment> \<open>\<open>REFORGES.id?.tiers[rarity]?.stats?.[Stat.FarmingFortune] ?? 0\<close>\<close>
  "reforgeTierFortune T reforgeId rarity =
     (case REFORGES T reforgeId of None \<Rightarrow> 0
      | Some r \<Rightarrow> statOr0 (map_option stats (tiers r rarity)))"


section \<open>The yield model (src/util/ratecalc.ts)\<close>

record CalculateDropsOptions =
  farmingFortune :: "real option"
  blocksBroken :: real

record CalculateDetailedDropsOptions = CalculateDropsOptions +
  bountiful :: bool
  mooshroom :: bool

record DetailedDrops =
  collection :: real
  npcCoins :: real
  fortune :: real
  coinSources :: "(string \<times> real) list"
  otherCollection :: "(string \<times> real) list"

text \<open>
  The per-crop functions take \<open>{crop: crop, ...options}\<close>: the crop is a separate
  argument of the model.
\<close>

definition baseDrops :: "real \<Rightarrow> real \<Rightarrow> real \<Rightarrow> real" where
  \<comment> \<open>\<open>blocksBroken * drops * ((fortune + 100) * 0.01)\<close>, in both functions\<close>
  "baseDrops blocks d f =
     fl (fl (blocks * d) * fl (fl (f + 100) * fl (1 / 100)))"

definition CalculateExpectedDrops ::
  "Tables \<Rightarrow> Crop \<Rightarrow> 'a CalculateDropsOptions_scheme \<Rightarrow> real" where
  "CalculateExpectedDrops T crop options =
     (let fortune = (case farmingFortune options of Some f \<Rightarrow> f
                     | None \<Rightarrow> (case MAX_CROP_FORTUNE T crop of Some m \<Rightarrow> m | None \<Rightarrow> 0));
          blocks = blocksBroken options
      in if fortune \<le> 0 \<or> blocks < 0 then 0
         else
           let d = drops (GetCropInfo crop)
           in if d = 0 then 0
              else
                let base = baseDrops blocks d fortune
                in (case crop of
                      Cactus \<Rightarrow> Math_round base
                    | Wheat \<Rightarrow> Math_round base
                    | Mushroom \<Rightarrow> Math_round base
                    | SugarCane \<Rightarrow> Math_round base
                    | Carrot \<Rightarrow> Math_round (fl (base - blocks))
                    | CocoaBeans \<Rightarrow> Math_round (fl (base - blocks))
                    | NetherWart \<Rightarrow> Math_round (fl (base - blocks))
                    | Potato \<Rightarrow> Math_round (fl (base - blocks))
                    | Seeds \<Rightarrow> Math_round (fl (base - blocks))
                    | Pumpkin \<Rightarrow> Math_round (fl (base + CalculatePumpkinPerkBonus T blocks))
                    | Melon \<Rightarrow> Math_round (fl (base + CalculateMelonPerkBonus T blocks))))"

definition CalculateAverageDrops ::
  "Tables \<Rightarrow> 'a CalculateDropsOptions_scheme \<Rightarrow> (Crop \<rightharpoonup> real)" where
  "CalculateAverageDrops T options =
     foldl (\<lambda>result crop. result(crop \<mapsto> CalculateExpectedDrops T crop options))
       Map.empty crops"

definition emptyDrops :: DetailedDrops where
  "emptyDrops =
     \<lparr>collection = 0, npcCoins = 0, fortune = 0, coinSources = [], otherCollection = []\<rparr>"

definition CalculateDetailedDrops ::
  "Tables \<Rightarrow> Crop \<Rightarrow> CalculateDetailedDropsOptions \<Rightarrow> DetailedDrops" where
  "CalculateDetailedDrops T crop options =
     (let result = emptyDrops;
          blocks = blocksBroken options;
          fortune0 = (case farmingFortune options of Some f \<Rightarrow> f
                      | None \<Rightarrow> (case MAX_CROP_FORTUNE T crop of Some m \<Rightarrow> m | None \<Rightarrow> 0))
      in if fortune0 \<le> 0 \<or> blocks < 0 then result
         else
           let fortune1 =
                 (if \<not> bountiful options \<and> \<not> truthy (farmingFortune options) then
                    let maxRarity = (case BEST_FARMING_TOOLS_maxRarity T crop of
                                       Some r \<Rightarrow> r | None \<Rightarrow> Rarity_Mythic T);
                        bountifulFortune = reforgeTierFortune T ''bountiful'' maxRarity;
                        blessedFortune = reforgeTierFortune T ''blessed'' maxRarity
                    in fl (fortune0 + fl (blessedFortune - bountifulFortune))
                  else fortune0);
               result = result\<lparr>fortune := fortune1\<rparr>;
               info = GetCropInfo crop;
               d = drops info;
               n = npc info;
               brk = (case breaks info of Some b \<Rightarrow> b | None \<Rightarrow> 1);
               repl = (case replenish info of Some b \<Rightarrow> b | None \<Rightarrow> False)
           in if d = 0 then result
              else
                let base = baseDrops blocks d fortune1;
                    result = result\<lparr>otherCollection :=
                      AList.update ''Normal'' (Math_round base) (otherCollection result)\<rparr>;
                    result =
                      (if bountiful options then
                         result\<lparr>coinSources := AList.update ''Bountiful''
                           (Math_round (fl (base * fl (2 / 10)))) (coinSources result)\<rparr>
                       else result);
                    result =
                      (if mooshroom options then
                         let mushroomDrops = Math_round (fl (blocks * brk))
                         in result\<lparr>coinSources := AList.update ''Mooshroom''
                                     (fl (mushroomDrops * npc (CROP_INFO Mushroom))) (coinSources result),
                                   otherCollection := AList.update ''Mushroom''
                                     mushroomDrops (otherCollection result)\<rparr>
                       else result);
                    armorPieces = (if crop = Cactus then 3 else 4);
                    specialCrops = CalculateAverageSpecialCrops T blocks crop armorPieces;
                    result = result\<lparr>otherCollection := AList.update (specialType specialCrops)
                      (Math_round (specialAmount specialCrops)) (otherCollection result)\<rparr>;
                    result = result\<lparr>coinSources := AList.update (specialType specialCrops)
                      (Math_round (specialNpc specialCrops)) (coinSources result)\<rparr>;
                    result =
                      (case crop of
                         Pumpkin \<Rightarrow>
                           let extraDrops = Math_round (CalculatePumpkinPerkBonus T blocks)
                           in result\<lparr>
                                coinSources := AList.update ''Collection'' (Math_round (fl (base * n)))
                                  (AList.update ''Dicer RNG'' (Math_round (fl (extraDrops * n)))
                                     (coinSources result)),
                                otherCollection := AList.update ''RNG Pumpkin''
                                  (Math_round extraDrops) (otherCollection result),
                                collection := Math_round (fl (base + extraDrops))\<rparr>
                       | Melon \<Rightarrow>
                           let extraDrops = Math_round (CalculateMelonPerkBonus T blocks)
                           in result\<lparr>
                                coinSources := AList.update ''Collection'' (Math_round (fl (base * n)))
                                  (AList.update ''Dicer RNG'' (Math_round (fl (extraDrops * n)))
                                     (coinSources result)),
                                otherCollection := AList.update ''RNG Melon''
                                  (Math_round extraDrops) (otherCollection result),
                                collection := Math_round (fl (base + extraDrops))\<rparr>
                       | _ \<Rightarrow>
                           if repl then
                             result\<lparr>
                               coinSources := AList.update ''Collection''
                                 (Math_round (fl (fl (base - fl (blocks * brk)) * n))) (coinSources result),
                               otherCollection := AList.update ''Replenish''
                                 (- Math_round (fl (blocks * brk))) (otherCollection result),
                               collection := Math_round base\<rparr>
                           else
                             result\<lparr>
                               coinSources := AList.update ''Collection''
                                 (Math_round (fl (base * n))) (coinSources result),
                               collection := Math_round base\<rparr>)
                in result\<lparr>npcCoins := sumValues (coinSources result)\<rparr>)"

datatype error = TypeError | UnknownFarmingTool string string

definition combineSeeds ::
  "CalculateDetailedDropsOptions \<Rightarrow> DetailedDrops \<Rightarrow> DetailedDrops \<Rightarrow> DetailedDrops" where
  \<comment> \<open>lines 66 to 73: the update of the wheat entry from the seeds entry\<close>
  "combineSeeds options wheat seeds =
     (let seedCollection = collection seeds - blocksBroken options;
          wheat = wheat\<lparr>otherCollection :=
            AList.update ''Seeds'' seedCollection (otherCollection wheat)\<rparr>;
          wheat = wheat\<lparr>coinSources :=
            AList.update ''Seeds'' (seedCollection * npc (CROP_INFO Seeds)) (coinSources wheat)\<rparr>;
          wheat =
            (if bountiful options then
               wheat\<lparr>coinSources := AList.update ''Bountiful (Seeds)''
                 (case map_of (coinSources seeds) ''Bountiful'' of Some v \<Rightarrow> v | None \<Rightarrow> 0)
                 (coinSources wheat)\<rparr>
             else wheat)
      in wheat\<lparr>npcCoins := sumValues (coinSources wheat)\<rparr>)"

definition countMooshroom :: "DetailedDrops \<Rightarrow> DetailedDrops" where
  \<comment> \<open>lines 78 to 82: the update of the mushroom entry\<close>
  "countMooshroom mushroom =
     (let moo = (case map_of (otherCollection mushroom) ''Mushroom'' of
                   Some v \<Rightarrow> v | None \<Rightarrow> 0);
          mushroom = mushroom\<lparr>collection := collection mushroom + moo\<rparr>;
          mushroom = mushroom\<lparr>otherCollection :=
            AList.update ''Mooshroom'' moo (otherCollection mushroom)\<rparr>
      in mushroom\<lparr>otherCollection := AList.delete ''Mushroom'' (otherCollection mushroom)\<rparr>)"

text \<open>
  The result object maps crops to entries. Reading a property of an entry that is
  \<open>undefined\<close> throws a \<open>TypeError\<close>, which the two folding steps keep as a branch.
\<close>

definition seedFolding ::
  "CalculateDetailedDropsOptions \<Rightarrow> (Crop \<rightharpoonup> DetailedDrops) \<Rightarrow> error + (Crop \<rightharpoonup> DetailedDrops)"
  where
  "seedFolding options result =
     (case result Wheat of
        None \<Rightarrow> Inl TypeError
      | Some wheat \<Rightarrow>
          (case result Seeds of
             None \<Rightarrow> Inl TypeError
           | Some seeds \<Rightarrow> Inr (result(Wheat \<mapsto> combineSeeds options wheat seeds))))"

definition mooshroomFolding ::
  "CalculateDetailedDropsOptions \<Rightarrow> (Crop \<rightharpoonup> DetailedDrops) \<Rightarrow> error + (Crop \<rightharpoonup> DetailedDrops)"
  where
  "mooshroomFolding options result =
     (if mooshroom options then
        (case result Mushroom of
           None \<Rightarrow> Inl TypeError
         | Some mushroom \<Rightarrow> Inr (result(Mushroom \<mapsto> countMooshroom mushroom)))
      else Inr result)"

definition detailedPerCrop ::
  "Tables \<Rightarrow> CalculateDetailedDropsOptions \<Rightarrow> (Crop \<rightharpoonup> DetailedDrops)" where
  \<comment> \<open>lines 54 to 61: the loop over \<open>crops\<close>\<close>
  "detailedPerCrop T options =
     foldl (\<lambda>result crop. result(crop \<mapsto> CalculateDetailedDrops T crop options))
       Map.empty crops"

definition afterSeeds ::
  "Tables \<Rightarrow> CalculateDetailedDropsOptions \<Rightarrow> (Crop \<rightharpoonup> DetailedDrops)" where
  \<comment> \<open>the result object between the two folding steps\<close>
  "afterSeeds T options =
     (detailedPerCrop T options)(Wheat \<mapsto>
        combineSeeds options (CalculateDetailedDrops T Wheat options)
          (CalculateDetailedDrops T Seeds options))"

definition CalculateDetailedAverageDrops ::
  "Tables \<Rightarrow> CalculateDetailedDropsOptions \<Rightarrow> error + (Crop \<rightharpoonup> DetailedDrops)" where
  "CalculateDetailedAverageDrops T options =
     (case seedFolding options (detailedPerCrop T options) of
        Inl e \<Rightarrow> Inl e
      | Inr result \<Rightarrow> mooshroomFolding options result)"

record FortuneRequiredCalculatorOptions =
  fr_blocksBroken :: real
  fr_crop :: Crop
  fr_collection :: real
  useDicers :: "bool option"
  useMooshroom :: "bool option"

definition GetFortuneRequiredForCollection ::
  "Tables \<Rightarrow> FortuneRequiredCalculatorOptions \<Rightarrow> jsnum" where
  "GetFortuneRequiredForCollection T options =
     (let blocks = fr_blocksBroken options;
          crop = fr_crop options;
          collection0 = fr_collection options;
          d = drops (GetCropInfo crop);
          collection1 =
            (if useDicers options = Some True then
               (case crop of
                  Pumpkin \<Rightarrow> collection0 - CalculatePumpkinPerkBonus T blocks
                | Melon \<Rightarrow> collection0 - CalculateMelonPerkBonus T blocks
                | _ \<Rightarrow> collection0)
             else collection0);
          collection2 =
            (if useMooshroom options = Some True \<and> crop = Mushroom then collection1 - blocks
             else collection1);
          fortune = js_minus (js_divide (collection2 * 100) (d * blocks)) 100
      in Math_ceil fortune)"

definition GetNPCProfit :: "Crop \<Rightarrow> real \<Rightarrow> real" where
  "GetNPCProfit crop amount =
     (let n = npc (GetCropInfo crop) in if n = 0 then 0 else n * amount)"


section \<open>The fortune aggregator (classes/farmingtool.ts)\<close>

record Item =
  skyblockId :: string
  itemName :: string
  lore :: "string list option"
  enchantments :: "(string \<times> int) list"
  attributes :: "string \<rightharpoonup> string"

record PlayerOptions =
  milestones :: "Crop \<rightharpoonup> real"

text \<open>
  \<open>item.enchantments\<close> and \<open>item.attributes\<close> are read through \<open>?.\<close> and
  \<open>?? {}\<close> only, so an absent object and an empty one behave alike; the enchantments
  are listed in the order of \<open>Object.entries\<close>. \<open>item.lore\<close> is tested for
  presence. A number read from an attribute string with unary plus is \<open>None\<close> when
  the conversion gives NaN.
\<close>

text \<open>
  The tables are plain objects, and \<open>FARMING_TOOLS[id]\<close> reads a property: an own key
  of the table, or else a member that every object inherits from \<open>Object.prototype\<close>
  (a function, or the prototype itself for \<open>__proto__\<close>), or else \<open>undefined\<close>. An
  inherited member is truthy and has none of the properties of a table entry.

  The same holds for \<open>REFORGES[id]\<close>, \<open>FARMING_ENCHANTS[name]\<close> and
  \<open>name in TURBO_ENCHANTS\<close>, but there an inherited member leads to the same result as
  an absent entry: its \<open>tiers\<close> and \<open>levels\<close> are \<open>undefined\<close>, so it contributes
  nothing, and as a turbo crop it equals no crop. These three tables are read as partial
  maps of their own keys.
\<close>

datatype 'a property = Own 'a | Inherited | Absent

definition objectPrototypeKeys :: "string list" where
  "objectPrototypeKeys =
     [''constructor'', ''hasOwnProperty'', ''isPrototypeOf'', ''propertyIsEnumerable'',
      ''toLocaleString'', ''toString'', ''valueOf'', ''__proto__'', ''__defineGetter__'',
      ''__defineSetter__'', ''__lookupGetter__'', ''__lookupSetter__'']"

definition readProperty :: "(string \<rightharpoonup> 'a) \<Rightarrow> string \<Rightarrow> 'a property" where
  "readProperty obj key =
     (case obj key of
        Some v \<Rightarrow> Own v
      | None \<Rightarrow> if key \<in> set objectPrototypeKeys then Inherited else Absent)"

definition ownValue :: "'a property \<Rightarrow> 'a option" where
  "ownValue p = (case p of Own v \<Rightarrow> Some v | Inherited \<Rightarrow> None | Absent \<Rightarrow> None)"

text \<open>
  In the tool object, \<open>tool\<close> is \<open>None\<close> when the value found in the table is an
  inherited member, and then so is \<open>crop\<close>, which is read from it.
\<close>

record FarmingTool =
  item :: Item
  crop :: "Crop option"
  tool :: "FarmingToolInfo option"
  rarity :: "Rarity option"
  counter :: "real option"
  cultivating :: real
  reforge :: "Reforge option"
  reforgeStats :: "ReforgeTier option"
  farmingForDummies :: "real option"
  recombobulated :: bool
  fortune :: real
  fortuneBreakdown :: "(string \<times> real) list"
  options :: "PlayerOptions option"

type_synonym fortuneState = "(string \<times> real) list \<times> real"

definition addFortune :: "string \<Rightarrow> real \<Rightarrow> fortuneState \<Rightarrow> fortuneState" where
  \<comment> \<open>\<open>this.fortuneBreakdown[label] = v; sum += v\<close>\<close>
  "addFortune label v st = (AList.update label v (fst st), snd st + v)"

definition addIfPositive :: "string \<Rightarrow> real \<Rightarrow> fortuneState \<Rightarrow> fortuneState" where
  "addIfPositive label v st = (if 0 < v then addFortune label v st else st)"

definition attributeNumber :: "Tables \<Rightarrow> Item \<Rightarrow> string \<Rightarrow> real option" where
  \<comment> \<open>\<open>+(item.attributes?.key ?? 0)\<close>\<close>
  "attributeNumber T it key =
     (case attributes it key of None \<Rightarrow> Some 0 | Some s \<Rightarrow> ToNumber T s)"

definition getCounter :: "Tables \<Rightarrow> Item \<Rightarrow> real option" where
  "getCounter T it =
     (case attributeNumber T it ''mined_crops'' of
        None \<Rightarrow> None
      | Some c \<Rightarrow> if c \<noteq> 0 then Some c else None)"

definition getCultivating :: "Tables \<Rightarrow> Item \<Rightarrow> real option" where
  "getCultivating T it =
     (case attributeNumber T it ''farmed_cultivating'' of
        None \<Rightarrow> None
      | Some c \<Rightarrow> if c \<noteq> 0 then Some c else None)"

definition getFarmingAbilityFortune :: "Tables \<Rightarrow> Item \<Rightarrow> real" where
  "getFarmingAbilityFortune T it =
     foldl (\<lambda>f line. f + (case ExtractNumberFromLine T line of Some n \<Rightarrow> n | None \<Rightarrow> 0))
       0 (case lore it of Some ls \<Rightarrow> ls | None \<Rightarrow> [])"

definition isMathematicalHoe :: "FarmingToolInfo option \<Rightarrow> bool" where
  \<comment> \<open>\<open>this.tool.type === FarmingToolType.MathematicalHoe\<close>\<close>
  "isMathematicalHoe t =
     (case t of None \<Rightarrow> False | Some info \<Rightarrow> toolType info = MathematicalHoe)"

definition enchantStep ::
  "Tables \<Rightarrow> Crop option \<Rightarrow> fortuneState \<Rightarrow> string \<times> int \<Rightarrow> fortuneState" where
  \<comment> \<open>lines 110 to 130: the body of the loop over the enchantments\<close>
  "enchantStep T c st entry =
     (case entry of (enchant, level) \<Rightarrow>
        if level = 0 then st
        else
          (case TURBO_ENCHANTS T enchant of
             Some matchingCrop \<Rightarrow>
               if Some matchingCrop \<noteq> c then st
               else addFortune ''Turbo'' (TURBO_ENCHANT_FORTUNE T * of_int level) st
           | None \<Rightarrow>
               (case FARMING_ENCHANTS T enchant of
                  None \<Rightarrow> st
                | Some enchantment \<Rightarrow>
                    addIfPositive (enchantName enchantment)
                      (statOr0 (levels enchantment level)) st)))"

definition milestoneStep :: "Tables \<Rightarrow> FarmingTool \<Rightarrow> fortuneState \<Rightarrow> fortuneState" where
  \<comment> \<open>lines 133 to 145\<close>
  "milestoneStep T this st =
     (let milestone =
            (case options this of
               None \<Rightarrow> 0
             | Some opts \<Rightarrow>
                 (case crop this of
                    None \<Rightarrow> 0
                  | Some c \<Rightarrow> (case milestones opts c of None \<Rightarrow> 0 | Some m \<Rightarrow> m)))
      in if milestone \<noteq> 0 then
           (case map_of (enchantments (item this)) ''dedication'' of
              None \<Rightarrow> st
            | Some level \<Rightarrow>
                (case FARMING_ENCHANTS T ''dedication'' of
                   None \<Rightarrow> st
                 | Some enchantment \<Rightarrow>
                     if level \<noteq> 0 then
                       let multiplier = statOr0 (multipliedLevels enchantment level)
                       in if 0 < multiplier then
                            addFortune (enchantName enchantment) (multiplier * milestone) st
                          else st
                     else st))
         else st)"

definition sumFortune :: "Tables \<Rightarrow> FarmingTool \<Rightarrow> fortuneState" where
  "sumFortune T this =
     (let st = ([], 0);
          st = addIfPositive ''Tool Bonus'' (statOr0 (map_option baseStats (tool this))) st;
          baseRarity = (if recombobulated this then PreviousRarity T (rarity this)
                        else rarity this);
          rarityStats =
            statOr0 (case baseRarity of
                       None \<Rightarrow> None
                     | Some r \<Rightarrow> (case tool this of None \<Rightarrow> None | Some t \<Rightarrow> toolStats t r));
          st = addIfPositive ''Tool Stats'' rarityStats st;
          st = addIfPositive
                 (case reforge this of
                    None \<Rightarrow> ''Reforge''
                  | Some r \<Rightarrow> (case reforgeName r of None \<Rightarrow> ''Reforge'' | Some n \<Rightarrow> n))
                 (statOr0 (map_option stats (reforgeStats this))) st;
          st = (case farmingForDummies this of
                  None \<Rightarrow> st
                | Some n \<Rightarrow> addIfPositive ''Farming for Dummies'' n st);
          st = (if isMathematicalHoe (tool this) then
                  addIfPositive ''Tool Ability'' (getFarmingAbilityFortune T (item this)) st
                else st);
          st = foldl (enchantStep T (crop this)) st (enchantments (item this))
      in milestoneStep T this st)"

definition setReforge :: "Tables \<Rightarrow> string \<Rightarrow> FarmingTool \<Rightarrow> FarmingTool" where
  "setReforge T reforgeId this =
     (let r = REFORGES T reforgeId
      in this\<lparr>reforge := r,
              reforgeStats :=
                (case r of
                   None \<Rightarrow> None
                 | Some rf \<Rightarrow> (case rarity this of None \<Rightarrow> None | Some ra \<Rightarrow> tiers rf ra))\<rparr>)"

definition rebuildTool ::
  "Tables \<Rightarrow> Item \<Rightarrow> PlayerOptions option \<Rightarrow> error + FarmingTool" where
  \<comment> \<open>called by the constructor on a fresh object, whose fields are all unset\<close>
  "rebuildTool T it opts =
     (let found = readProperty (FARMING_TOOLS T) (skyblockId it)
      in if found = Absent then Inl (UnknownFarmingTool (itemName it) (skyblockId it))
         else
           let t = ownValue found;
               this = \<lparr>item = it, crop = map_option toolCrop t, tool = t,
                       rarity = (case lore it of
                                   None \<Rightarrow> None
                                 | Some ls \<Rightarrow> GetRarityFromLore T ls),
                       counter = getCounter T it,
                       cultivating = (case getCultivating T it of Some c \<Rightarrow> c | None \<Rightarrow> 0),
                       reforge = None, reforgeStats = None,
                       farmingForDummies = attributeNumber T it ''farming_for_dummies_count'',
                       recombobulated = (attributes it ''rarity_upgrades'' = Some ''1''),
                       fortune = 0, fortuneBreakdown = [],
                       options = opts\<rparr>;
               this = setReforge T
                        (case attributes it ''modifier'' of Some m \<Rightarrow> m | None \<Rightarrow> []) this;
               st = sumFortune T this
           in Inr (this\<lparr>fortuneBreakdown := fst st, fortune := snd st\<rparr>))"

definition IsValidFarmingTool :: "Tables \<Rightarrow> Item \<Rightarrow> bool" where
  "IsValidFarmingTool T it = (readProperty (FARMING_TOOLS T) (skyblockId it) \<noteq> Absent)"


section \<open>The contributions in evaluation order\<close>

text \<open>
  \<open>sumFortune\<close> assigns to the breakdown and adds to the sum in the same places.
  \<open>fortuneWrites\<close> lists these places in the order the code reaches them, as pairs of
  label and amount; \<open>sumFortune_writes\<close> below proves that running the assignments
  of the list gives the state that \<open>sumFortune\<close> returns.
\<close>

definition applyWrite :: "fortuneState \<Rightarrow> string \<times> real \<Rightarrow> fortuneState" where
  "applyWrite st w = addFortune (fst w) (snd w) st"

definition writeIfPositive :: "string \<Rightarrow> real \<Rightarrow> (string \<times> real) list" where
  "writeIfPositive label v = (if 0 < v then [(label, v)] else [])"

definition enchantWrites ::
  "Tables \<Rightarrow> Crop option \<Rightarrow> string \<times> int \<Rightarrow> (string \<times> real) list" where
  "enchantWrites T c entry =
     (case entry of (enchant, level) \<Rightarrow>
        if level = 0 then []
        else
          (case TURBO_ENCHANTS T enchant of
             Some matchingCrop \<Rightarrow>
               if Some matchingCrop \<noteq> c then []
               else [(''Turbo'', TURBO_ENCHANT_FORTUNE T * of_int level)]
           | None \<Rightarrow>
               (case FARMING_ENCHANTS T enchant of
                  None \<Rightarrow> []
                | Some enchantment \<Rightarrow>
                    writeIfPositive (enchantName enchantment)
                      (statOr0 (levels enchantment level)))))"

definition milestoneWrites :: "Tables \<Rightarrow> FarmingTool \<Rightarrow> (string \<times> real) list" where
  "milestoneWrites T this = fst (milestoneStep T this ([], 0))"

definition reforgeLabel :: "FarmingTool \<Rightarrow> string" where
  "reforgeLabel this =
     (case reforge this of
        None \<Rightarrow> ''Reforge''
      | Some r \<Rightarrow> (case reforgeName r of None \<Rightarrow> ''Reforge'' | Some n \<Rightarrow> n))"

definition rarityStatsOf :: "Tables \<Rightarrow> FarmingTool \<Rightarrow> real" where
  "rarityStatsOf T this =
     statOr0 (case (if recombobulated this then PreviousRarity T (rarity this) else rarity this)
              of None \<Rightarrow> None
               | Some r \<Rightarrow> (case tool this of None \<Rightarrow> None | Some t \<Rightarrow> toolStats t r))"

definition fortuneWrites :: "Tables \<Rightarrow> FarmingTool \<Rightarrow> (string \<times> real) list" where
  "fortuneWrites T this =
     writeIfPositive ''Tool Bonus'' (statOr0 (map_option baseStats (tool this)))
     @ writeIfPositive ''Tool Stats'' (rarityStatsOf T this)
     @ writeIfPositive (reforgeLabel this) (statOr0 (map_option stats (reforgeStats this)))
     @ (case farmingForDummies this of
          None \<Rightarrow> []
        | Some n \<Rightarrow> writeIfPositive ''Farming for Dummies'' n)
     @ (if isMathematicalHoe (tool this) then
          writeIfPositive ''Tool Ability'' (getFarmingAbilityFortune T (item this))
        else [])
     @ concat (map (enchantWrites T (crop this)) (enchantments (item this)))
     @ milestoneWrites T this"


section \<open>Sample tables and inputs\<close>

text \<open>
  Concrete values for the parameters, used where a statement is evaluated at an input.
  The sample tool table has one mathematical hoe for wheat; the dedication enchantment has
  both a flat and a milestone-multiplied row.
\<close>

definition sampleReforges :: "string \<rightharpoonup> Reforge" where
  "sampleReforges =
     [''blessed'' \<mapsto> \<lparr>reforgeName = Some ''Blessed'', tiers =
        [''EPIC'' \<mapsto> \<lparr>stats = [FarmingFortune \<mapsto> 10]\<rparr>,
         ''LEGENDARY'' \<mapsto> \<lparr>stats = [FarmingFortune \<mapsto> 13]\<rparr>,
         ''MYTHIC'' \<mapsto> \<lparr>stats = [FarmingFortune \<mapsto> 16]\<rparr>]\<rparr>,
      ''bountiful'' \<mapsto> \<lparr>reforgeName = Some ''Bountiful'', tiers =
        [''LEGENDARY'' \<mapsto> \<lparr>stats = [FarmingFortune \<mapsto> 8]\<rparr>,
         ''MYTHIC'' \<mapsto> \<lparr>stats = [FarmingFortune \<mapsto> 10]\<rparr>]\<rparr>]"

definition sampleHoe :: FarmingToolInfo where
  "sampleHoe =
     \<lparr>toolCrop = Wheat, toolType = MathematicalHoe,
      baseStats = [FarmingFortune \<mapsto> 10],
      toolStats = [''EPIC'' \<mapsto> [FarmingFortune \<mapsto> 25],
                   ''LEGENDARY'' \<mapsto> [FarmingFortune \<mapsto> 50]]\<rparr>"

definition sampleEnchants :: "string \<rightharpoonup> FarmingEnchant" where
  "sampleEnchants =
     [''harvesting'' \<mapsto> \<lparr>enchantName = ''Harvesting'',
        levels = [1 \<mapsto> [FarmingFortune \<mapsto> 12], 2 \<mapsto> [FarmingFortune \<mapsto> 25]],
        multipliedLevels = Map.empty\<rparr>,
      ''dedication'' \<mapsto> \<lparr>enchantName = ''Dedication'',
        levels = [1 \<mapsto> [FarmingFortune \<mapsto> 1]],
        multipliedLevels = [1 \<mapsto> [FarmingFortune \<mapsto> 1 / 2]]\<rparr>]"

definition sampleTables :: Tables where
  "sampleTables =
     \<lparr>MAX_CROP_FORTUNE = [Wheat \<mapsto> 1000, Seeds \<mapsto> 1000],
      BEST_FARMING_TOOLS_maxRarity = [Wheat \<mapsto> ''LEGENDARY''],
      Rarity_Mythic = ''MYTHIC'',
      REFORGES = sampleReforges,
      CalculateMelonPerkBonus = (\<lambda>blocks. blocks / 100),
      CalculatePumpkinPerkBonus = (\<lambda>blocks. blocks / 200),
      CalculateAverageSpecialCrops =
        (\<lambda>blocks c pieces. \<lparr>specialType = ''Cropie'', specialAmount = blocks * pieces / 1000,
                              specialNpc = blocks * pieces / 40\<rparr>),
      FARMING_TOOLS = [''THEORETICAL_HOE_WHEAT_1'' \<mapsto> sampleHoe],
      FARMING_ENCHANTS = sampleEnchants,
      TURBO_ENCHANTS = [''turbo_wheat'' \<mapsto> Wheat, ''turbo_cacti'' \<mapsto> Cactus],
      TURBO_ENCHANT_FORTUNE = 5,
      GetRarityFromLore = (\<lambda>ls. if ls = [] then None else Some (last ls)),
      PreviousRarity =
        (\<lambda>r. if r = Some ''LEGENDARY'' then Some ''EPIC''
              else if r = Some ''MYTHIC'' then Some ''LEGENDARY'' else r),
      ExtractNumberFromLine = (\<lambda>line. if line = ''You have +20'' then Some 20 else None),
      ToNumber = (\<lambda>s. if s = ''5'' then Some 5 else if s = ''1'' then Some 1 else None)\<rparr>"

definition sampleOptions :: CalculateDetailedDropsOptions where
  "sampleOptions =
     \<lparr>farmingFortune = Some 200, blocksBroken = 100, bountiful = True, mooshroom = True\<rparr>"

definition sampleItem :: Item where
  "sampleItem =
     \<lparr>skyblockId = ''THEORETICAL_HOE_WHEAT_1'', itemName = ''Wheat Hoe'',
      lore = Some [''You have +20'', ''EPIC''],
      enchantments = [(''harvesting'', 2), (''turbo_wheat'', 3), (''turbo_cacti'', 4)],
      attributes = [''modifier'' \<mapsto> ''blessed'', ''farming_for_dummies_count'' \<mapsto> ''5'']\<rparr>"


definition samplePlayer :: PlayerOptions where
  "samplePlayer = \<lparr>milestones = [Wheat \<mapsto> 10]\<rparr>"

definition dedicationItem :: Item where
  "dedicationItem = sampleItem\<lparr>enchantments := [(''dedication'', 1)]\<rparr>"

definition unknownItem :: Item where
  "unknownItem = sampleItem\<lparr>skyblockId := ''STICK'', itemName := ''Stick''\<rparr>"

definition toStringItem :: "string \<Rightarrow> Item" where
  \<comment> \<open>an item without lore, enchantments or attributes whose identifier is \<open>toString\<close>\<close>
  "toStringItem n =
     \<lparr>skyblockId = ''toString'', itemName = n, lore = None, enchantments = [],
      attributes = Map.empty\<rparr>"

definition recombobulatedItem :: Item where
  "recombobulatedItem =
     sampleItem\<lparr>lore := Some [''You have +20'', ''LEGENDARY''],
                attributes := (attributes sampleItem)(''rarity_upgrades'' \<mapsto> ''1'')\<rparr>"


section \<open>Properties of the rounding\<close>

text \<open>
  \<open>floorLog2\<close> brackets its argument between two consecutive powers of two, so that
  the significand of a normal value lies between \<open>2^52\<close> and \<open>2^53\<close>; and \<open>fl x\<close>
  is a whole multiple of the unit in the last place of \<open>x\<close>, at most half a unit away
  from \<open>x\<close>.
\<close>

lemma bitLength_bounds:
  "0 < n \<Longrightarrow> 2 ^ (bitLength n - 1) \<le> n \<and> n < 2 ^ bitLength n"
proof (induction n rule: bitLength.induct)
  case (1 n)
  have bl: "bitLength n = Suc (bitLength (n div 2))"
    using "1.prems" by (subst bitLength.simps) simp
  show ?case
  proof (cases "n div 2 \<le> 0")
    case True
    with "1.prems" have "n = 1" by linarith
    then show ?thesis by (simp add: bitLength.simps)
  next
    case False
    then have pos: "0 < n div 2" by simp
    from "1.prems" have n0: "\<not> n \<le> 0" by simp
    from "1.IH" [OF n0 pos]
    have ih: "2 ^ (bitLength (n div 2) - 1) \<le> n div 2" "n div 2 < 2 ^ bitLength (n div 2)"
      by simp_all
    have blpos: "0 < bitLength (n div 2)"
      using pos by (subst bitLength.simps) simp
    have double: "(2::int) ^ bitLength (n div 2) = 2 * 2 ^ (bitLength (n div 2) - 1)"
      using blpos by (cases "bitLength (n div 2)") simp_all
    have low: "2 ^ bitLength (n div 2) \<le> n"
      using ih(1) double by linarith
    have high: "n < 2 * 2 ^ bitLength (n div 2)"
      using ih(2) by linarith
    from low high show ?thesis
      unfolding bl by simp
  qed
qed

lemma floorLog2_bounds:
  assumes "0 < a"
  shows "pow2 (floorLog2 a) \<le> a \<and> a < pow2 (floorLog2 a + 1)"
proof (cases "1 \<le> a")
  case True
  then have n: "0 < \<lfloor>a\<rfloor>" by linarith
  let ?k = "bitLength \<lfloor>a\<rfloor>"
  from bitLength_bounds [OF n]
  have b: "2 ^ (?k - 1) \<le> \<lfloor>a\<rfloor>" "\<lfloor>a\<rfloor> < 2 ^ ?k" by simp_all
  have kpos: "0 < ?k"
    using n by (subst bitLength.simps) simp
  have fl2: "floorLog2 a = int ?k - 1"
    using True by (simp add: floorLog2_def)
  have p1: "pow2 (int ?k - 1) = 2 ^ (?k - 1)"
    using kpos by (simp add: pow2_def nat_diff_distrib)
  have p2: "pow2 (int ?k - 1 + 1) = 2 ^ ?k"
    by (simp add: pow2_def)
  have low: "2 ^ (?k - 1) \<le> a"
  proof -
    have "(2::real) ^ (?k - 1) = real_of_int (2 ^ (?k - 1))" by simp
    also have "\<dots> \<le> real_of_int \<lfloor>a\<rfloor>" using b(1) by (simp only: of_int_le_iff)
    also have "\<dots> \<le> a" by simp
    finally show ?thesis .
  qed
  have high: "a < 2 ^ ?k"
  proof -
    have "\<lfloor>a\<rfloor> + 1 \<le> 2 ^ ?k" using b(2) by simp
    then have le: "real_of_int (\<lfloor>a\<rfloor> + 1) \<le> real_of_int (2 ^ ?k)"
      by (simp only: of_int_le_iff)
    have "a < real_of_int (\<lfloor>a\<rfloor> + 1)" by linarith
    also note le
    also have "real_of_int (2 ^ ?k) = 2 ^ ?k" by simp
    finally show ?thesis .
  qed
  from low high show ?thesis
    unfolding fl2 p1 p2 by simp
next
  case False
  then have lt: "a < 1" by simp
  then have y: "1 < 1 / a"
    using assms by simp
  let ?m = "\<lceil>1 / a\<rceil> - 1"
  have m: "0 < ?m" using y by linarith
  let ?k = "bitLength ?m"
  from bitLength_bounds [OF m]
  have b: "2 ^ (?k - 1) \<le> ?m" "?m < 2 ^ ?k" by simp_all
  have kpos: "0 < ?k"
    using m by (subst bitLength.simps) simp
  have fl2: "floorLog2 a = - int ?k"
    using False by (simp add: floorLog2_def)
  have p1: "pow2 (- int ?k) = 1 / 2 ^ ?k"
    using kpos by (simp add: pow2_def)
  have p2: "pow2 (- int ?k + 1) = 1 / 2 ^ (?k - 1)"
  proof (cases "?k = 1")
    case True
    then show ?thesis by (simp add: pow2_def)
  next
    case False
    with kpos have "1 < ?k" by simp
    then show ?thesis
      by (simp add: pow2_def nat_diff_distrib)
  qed
  have up: "1 / a \<le> 2 ^ ?k"
  proof -
    have "\<lceil>1 / a\<rceil> \<le> 2 ^ ?k" using b(2) by simp
    then have le: "real_of_int \<lceil>1 / a\<rceil> \<le> real_of_int (2 ^ ?k)"
      by (simp only: of_int_le_iff)
    have "1 / a \<le> real_of_int \<lceil>1 / a\<rceil>" by linarith
    also note le
    also have "real_of_int (2 ^ ?k) = 2 ^ ?k" by simp
    finally show ?thesis .
  qed
  have down: "2 ^ (?k - 1) < 1 / a"
  proof -
    have "(2::real) ^ (?k - 1) = real_of_int (2 ^ (?k - 1))" by simp
    also have "\<dots> \<le> real_of_int ?m"
      using b(1) by (simp only: of_int_le_iff)
    also have "\<dots> < 1 / a" by linarith
    finally show ?thesis .
  qed
  have low: "1 / 2 ^ ?k \<le> a"
    using up assms by (simp add: field_simps)
  have high: "a < 1 / 2 ^ (?k - 1)"
    using down assms by (simp add: field_simps)
  from low high show ?thesis
    unfolding fl2 p1 p2 by simp
qed


lemma pow2_pos: "0 < pow2 e"
  by (simp add: pow2_def)

lemma pow2_add: "pow2 (e + d) = pow2 e * pow2 d"
proof -
  have "pow2 k = 2 powi k" for k
    by (simp add: pow2_def power_int_def field_simps)
  then show ?thesis
    by (simp add: power_int_add)
qed

lemma roundHalfEven_near: "\<bar>real_of_int (roundHalfEven y) - y\<bar> \<le> 1 / 2"
  by (auto simp add: roundHalfEven_def Let_def abs_if; linarith)

lemma fl_nearest:
  assumes "x \<noteq> 0"
  shows "(\<exists>m. fl x = real_of_int m * pow2 (binade \<bar>x\<bar>))
     \<and> \<bar>fl x - x\<bar> \<le> pow2 (binade \<bar>x\<bar>) / 2"
proof
  let ?u = "pow2 (binade \<bar>x\<bar>)"
  let ?m = "roundHalfEven (\<bar>x\<bar> / ?u)"
  have u: "0 < ?u" by (rule pow2_pos)
  have flx: "fl x = sgn x * (real_of_int ?m * ?u)"
    using assms by (simp add: fl_def)
  show "\<exists>m. fl x = real_of_int m * ?u"
  proof (cases "0 < x")
    case True
    then show ?thesis unfolding flx by (intro exI [of _ ?m]) simp
  next
    case False
    with assms have "x < 0" by simp
    then show ?thesis unfolding flx by (intro exI [of _ "- ?m"]) simp
  qed
  have near: "\<bar>real_of_int ?m - \<bar>x\<bar> / ?u\<bar> \<le> 1 / 2"
    by (rule roundHalfEven_near)
  have "real_of_int ?m * ?u - \<bar>x\<bar> = (real_of_int ?m - \<bar>x\<bar> / ?u) * ?u"
    using u by (simp add: field_simps)
  then have "\<bar>real_of_int ?m * ?u - \<bar>x\<bar>\<bar> = \<bar>real_of_int ?m - \<bar>x\<bar> / ?u\<bar> * \<bar>?u\<bar>"
    by (simp only: abs_mult)
  also have "\<bar>?u\<bar> = ?u"
    using u by simp
  finally have "\<bar>real_of_int ?m * ?u - \<bar>x\<bar>\<bar> = \<bar>real_of_int ?m - \<bar>x\<bar> / ?u\<bar> * ?u" .
  also have "\<dots> \<le> 1 / 2 * ?u"
    using near u by (intro mult_right_mono) simp_all
  finally have mag: "\<bar>real_of_int ?m * ?u - \<bar>x\<bar>\<bar> \<le> ?u / 2" by simp
  show "\<bar>fl x - x\<bar> \<le> ?u / 2"
  proof (cases "0 < x")
    case True
    with mag show ?thesis unfolding flx by simp
  next
    case False
    with assms have neg: "x < 0" by simp
    have "\<bar>- (real_of_int ?m * ?u) - x\<bar> = \<bar>real_of_int ?m * ?u - \<bar>x\<bar>\<bar>"
      using neg by simp
    with mag neg show ?thesis unfolding flx by simp
  qed
qed

lemma significand_range:
  assumes "0 < a" and "- 1074 \<le> floorLog2 a - 52"
  shows "2 ^ 52 \<le> a / pow2 (binade a) \<and> a / pow2 (binade a) < 2 ^ 53"
proof -
  have b: "binade a = floorLog2 a - 52"
    using assms(2) by (simp add: binade_def)
  from floorLog2_bounds [OF assms(1)]
  have lo: "pow2 (floorLog2 a) \<le> a" and hi: "a < pow2 (floorLog2 a + 1)" by simp_all
  have p52: "pow2 52 = 2 ^ 52" and p53: "pow2 53 = 2 ^ 53"
    by (simp_all add: pow2_def)
  have "pow2 (floorLog2 a - 52 + 52) = pow2 (floorLog2 a - 52) * 2 ^ 52"
    unfolding pow2_add p52 ..
  then have e1: "pow2 (floorLog2 a) = pow2 (floorLog2 a - 52) * 2 ^ 52"
    by simp
  have "pow2 (floorLog2 a - 52 + 53) = pow2 (floorLog2 a - 52) * 2 ^ 53"
    unfolding pow2_add p53 ..
  moreover have "floorLog2 a - 52 + 53 = floorLog2 a + 1"
    by simp
  ultimately have e2: "pow2 (floorLog2 a + 1) = pow2 (floorLog2 a - 52) * 2 ^ 53"
    by simp
  have u: "0 < pow2 (floorLog2 a - 52)" by (rule pow2_pos)
  from lo have "pow2 (floorLog2 a - 52) * 2 ^ 52 \<le> a"
    unfolding e1 .
  then have low: "2 ^ 52 \<le> a / pow2 (floorLog2 a - 52)"
    using u by (simp add: field_simps)
  from hi have "a < pow2 (floorLog2 a - 52) * 2 ^ 53"
    unfolding e2 .
  then have high: "a / pow2 (floorLog2 a - 52) < 2 ^ 53"
    using u by (simp add: field_simps)
  from low high show ?thesis
    unfolding b by simp
qed


section \<open>Properties of the yield model\<close>

lemmas fl_eval =
  fl_def binade_def floorLog2_def pow2_def roundHalfEven_def Let_def bitLength.simps

lemma fl_one_hundredth: "fl (1 / 100) = 5764607523034235 / 2 ^ 59"
  by (simp add: fl_eval)

lemma CalculateDetailedDrops_npcCoins:
  "npcCoins (CalculateDetailedDrops T c opts) =
     sumValues (coinSources (CalculateDetailedDrops T c opts))"
  by (simp add: CalculateDetailedDrops_def Let_def emptyDrops_def sumValues_def)

lemma detailedPerCrop_apply:
  "detailedPerCrop T opts c = Some (CalculateDetailedDrops T c opts)"
  by (cases c) (simp_all add: detailedPerCrop_def crops_def)

lemma seedFolding_detailedPerCrop:
  "seedFolding opts (detailedPerCrop T opts) = Inr (afterSeeds T opts)"
  by (simp add: seedFolding_def detailedPerCrop_apply afterSeeds_def)

lemma combineSeeds_npcCoins:
  "npcCoins (combineSeeds opts wheat seeds) =
     sumValues (coinSources (combineSeeds opts wheat seeds))"
  by (simp add: combineSeeds_def Let_def)

lemma countMooshroom_frame:
  "coinSources (countMooshroom m) = coinSources m"
  "npcCoins (countMooshroom m) = npcCoins m"
  "DetailedDrops.fortune (countMooshroom m) = DetailedDrops.fortune m"
  by (simp_all add: countMooshroom_def Let_def)

lemma afterSeeds_Mushroom:
  "afterSeeds T opts Mushroom = Some (CalculateDetailedDrops T Mushroom opts)"
  by (simp add: afterSeeds_def detailedPerCrop_apply)

lemma CalculateDetailedAverageDrops_eq:
  "CalculateDetailedAverageDrops T opts =
     Inr (if mooshroom opts
          then (afterSeeds T opts)(Mushroom \<mapsto>
                 countMooshroom (CalculateDetailedDrops T Mushroom opts))
          else afterSeeds T opts)"
  by (simp add: CalculateDetailedAverageDrops_def seedFolding_detailedPerCrop
      mooshroomFolding_def afterSeeds_Mushroom)

text \<open>
  C8. The \<open>npcCoins\<close> field of the result of \<open>CalculateDetailedDrops\<close> is the sum of the
  values of its \<open>coinSources\<close>, on every path (the two early returns included).
  \<open>CalculateDetailedAverageDrops\<close> returns a result for every input, the result has an
  entry for every crop, and in every entry, the wheat entry after the seed folding and the
  mushroom entry after the mooshroom folding included, \<open>npcCoins\<close> is the sum of the
  values of \<open>coinSources\<close>.
\<close>

theorem npcCoins_is_sum_of_coinSources:
  "npcCoins (CalculateDetailedDrops T c opts) =
     sumValues (coinSources (CalculateDetailedDrops T c opts))
   \<and> (\<exists>result. CalculateDetailedAverageDrops T opts = Inr result
        \<and> (\<forall>c. \<exists>d. result c = Some d \<and> npcCoins d = sumValues (coinSources d)))"
proof
  show "npcCoins (CalculateDetailedDrops T c opts) =
          sumValues (coinSources (CalculateDetailedDrops T c opts))"
    by (rule CalculateDetailedDrops_npcCoins)
next
  let ?r = "if mooshroom opts
            then (afterSeeds T opts)(Mushroom \<mapsto>
                   countMooshroom (CalculateDetailedDrops T Mushroom opts))
            else afterSeeds T opts"
  have "\<exists>d. ?r c = Some d \<and> npcCoins d = sumValues (coinSources d)" for c
    by (simp add: afterSeeds_def detailedPerCrop_apply combineSeeds_npcCoins
        countMooshroom_frame CalculateDetailedDrops_npcCoins)
  then show "\<exists>result. CalculateDetailedAverageDrops T opts = Inr result
               \<and> (\<forall>c. \<exists>d. result c = Some d \<and> npcCoins d = sumValues (coinSources d))"
    unfolding CalculateDetailedAverageDrops_eq by blast
qed

text \<open>
  C7, as the code has it. For each of the five crops with a replenishment mechanic, a
  positive fortune \<open>f\<close> and a non-negative number \<open>b\<close> of blocks broken,
  \<open>CalculateExpectedDrops\<close> returns \<open>Math.round(base - b)\<close>, where
  \<open>base = b * dropsPerBreak * ((f + 100) * 0.01)\<close> and the difference are computed in
  binary64, each operation rounded. For potato, \<open>b = 100\<close> and \<open>f = 200\<close> that is 800,
  whatever the tables are.
\<close>

theorem expected_drops_replenish:
  "(c \<in> {Carrot, CocoaBeans, NetherWart, Potato, Seeds} \<and> 0 < f \<and> 0 \<le> b \<longrightarrow>
      CalculateExpectedDrops T c \<lparr>farmingFortune = Some f, blocksBroken = b\<rparr> =
        Math_round (fl (fl (fl (b * drops (CROP_INFO c)) * fl (fl (f + 100) * fl (1 / 100)))
                        - b)))
   \<and> CalculateExpectedDrops T Potato \<lparr>farmingFortune = Some 200, blocksBroken = 100\<rparr> = 800"
proof (intro conjI impI)
  assume h: "c \<in> {Carrot, CocoaBeans, NetherWart, Potato, Seeds} \<and> 0 < f \<and> 0 \<le> b"
  then consider "c = Carrot" | "c = CocoaBeans" | "c = NetherWart" | "c = Potato"
    | "c = Seeds"
    by auto
  then show "CalculateExpectedDrops T c \<lparr>farmingFortune = Some f, blocksBroken = b\<rparr> =
      Math_round (fl (fl (fl (b * drops (CROP_INFO c)) * fl (fl (f + 100) * fl (1 / 100)))
                      - b))"
    using h
    by cases (simp_all add: CalculateExpectedDrops_def GetCropInfo_def baseDrops_def)
next
  have "baseDrops 100 3 200 = 900"
    by (simp add: baseDrops_def fl_eval)
  moreover have "fl 800 = 800"
    by (simp add: fl_eval)
  ultimately
  show "CalculateExpectedDrops T Potato \<lparr>farmingFortune = Some 200, blocksBroken = 100\<rparr>
      = 800"
    by (simp add: CalculateExpectedDrops_def GetCropInfo_def Math_round_def)
qed

theorem expected_drops_replenish_witness:
  "Seeds \<in> {Carrot, CocoaBeans, NetherWart, Potato, Seeds} \<and> (0::real) < 50 \<and> (0::real) \<le> 10
   \<and> CalculateExpectedDrops sampleTables Seeds
         \<lparr>farmingFortune = Some 50, blocksBroken = 10\<rparr> = 13"
proof -
  have "Math_round (fl (fl (fl (10 * drops (CROP_INFO Seeds)) * fl (fl (50 + 100) * fl (1 / 100)))
                        - 10)) = 13"
    by (simp add: Math_round_def fl_eval)
  with expected_drops_replenish [of Seeds 50 10 sampleTables] show ?thesis
    by simp
qed

text \<open>
  Potato with fortune 105 and 10 blocks broken: \<open>(105 + 100) * 0.01\<close> is
  \<open>2.0499999999999998\<close> in binary64, the base is \<open>61.49999999999999\<close>, and the code
  returns \<open>Math.round(51.49999999999999) = 51\<close>, where
  \<open>round(10 * 3 * (105 + 100) / 100 - 10) = round(51.5)\<close> is 52.
\<close>

theorem expected_drops_potato_105:
  "CalculateExpectedDrops sampleTables Potato
      \<lparr>farmingFortune = Some 105, blocksBroken = 10\<rparr> = 51
   \<and> Math_round (10 * drops (CROP_INFO Potato) * (105 + 100) / 100 - 10) = 52"
proof -
  have base: "baseDrops 10 3 105 = 8655355533852671 / 2 ^ 47"
    by (simp add: baseDrops_def fl_eval)
  have diff: "fl (8655355533852671 / 2 ^ 47 - 10) = 7247980650299391 / 2 ^ 47"
    by (simp add: fl_eval)
  have "CalculateExpectedDrops sampleTables Potato
      \<lparr>farmingFortune = Some 105, blocksBroken = 10\<rparr> =
      Math_round (fl (baseDrops 10 3 105 - 10))"
    by (simp add: CalculateExpectedDrops_def GetCropInfo_def)
  then show ?thesis
    unfolding base diff by (simp add: Math_round_def)
qed

text \<open>
  C9. \<open>CalculateDetailedAverageDrops\<close> returns a result with a wheat entry in which
  \<open>otherCollection['Seeds']\<close> is the collection that \<open>CalculateDetailedDrops\<close> computes
  for the seeds crop on the same options, minus \<open>blocksBroken\<close>;
  \<open>coinSources['Seeds']\<close> is that quantity times the NPC price of seeds; and
  \<open>npcCoins\<close> is the sum of the values of the entry's final \<open>coinSources\<close>.
\<close>

theorem seed_folding_into_wheat:
  "\<exists>result wheat.
     CalculateDetailedAverageDrops T opts = Inr result \<and> result Wheat = Some wheat
     \<and> map_of (otherCollection wheat) ''Seeds'' =
         Some (collection (CalculateDetailedDrops T Seeds opts) - blocksBroken opts)
     \<and> map_of (coinSources wheat) ''Seeds'' =
         Some ((collection (CalculateDetailedDrops T Seeds opts) - blocksBroken opts)
               * npc (CROP_INFO Seeds))
     \<and> npcCoins wheat = sumValues (coinSources wheat)"
proof -
  let ?w = "combineSeeds opts (CalculateDetailedDrops T Wheat opts)
              (CalculateDetailedDrops T Seeds opts)"
  let ?r = "if mooshroom opts
            then (afterSeeds T opts)(Mushroom \<mapsto>
                   countMooshroom (CalculateDetailedDrops T Mushroom opts))
            else afterSeeds T opts"
  have entry: "?r Wheat = Some ?w"
    by (simp add: afterSeeds_def)
  have other: "map_of (otherCollection ?w) ''Seeds'' =
      Some (collection (CalculateDetailedDrops T Seeds opts) - blocksBroken opts)"
    by (simp add: combineSeeds_def Let_def update_conv')
  have coins: "map_of (coinSources ?w) ''Seeds'' =
      Some ((collection (CalculateDetailedDrops T Seeds opts) - blocksBroken opts)
            * npc (CROP_INFO Seeds))"
    by (simp add: combineSeeds_def Let_def update_conv')
  show ?thesis
  proof (intro exI conjI)
    show "CalculateDetailedAverageDrops T opts = Inr ?r"
      by (rule CalculateDetailedAverageDrops_eq)
    show "?r Wheat = Some ?w"
      by (rule entry)
    show "map_of (otherCollection ?w) ''Seeds'' =
        Some (collection (CalculateDetailedDrops T Seeds opts) - blocksBroken opts)"
      by (rule other)
    show "map_of (coinSources ?w) ''Seeds'' =
        Some ((collection (CalculateDetailedDrops T Seeds opts) - blocksBroken opts)
              * npc (CROP_INFO Seeds))"
      by (rule coins)
    show "npcCoins ?w = sumValues (coinSources ?w)"
      by (rule combineSeeds_npcCoins)
  qed
qed

text \<open>
  C10. With the mooshroom flag set, let \<open>result\<close> be the result object after the seed
  folding and \<open>m\<close> its mushroom entry. The mooshroom folding returns \<open>result\<close> with only
  the mushroom entry replaced, and this is what \<open>CalculateDetailedAverageDrops\<close> returns.
  In the new entry the collection is increased by the former
  \<open>otherCollection['Mushroom']\<close> (by 0 when that key is absent), \<open>otherCollection\<close>
  has a key \<open>'Mooshroom'\<close> with that value and has lost the key \<open>'Mushroom'\<close>, and
  \<open>coinSources\<close>, \<open>npcCoins\<close> and \<open>fortune\<close> are those of \<open>m\<close>.
\<close>

theorem mooshroom_folding_frame:
  "mooshroom opts \<Longrightarrow>
   \<exists>result m m'.
     seedFolding opts (detailedPerCrop T opts) = Inr result
     \<and> result Mushroom = Some m
     \<and> mooshroomFolding opts result = Inr (result(Mushroom \<mapsto> m'))
     \<and> CalculateDetailedAverageDrops T opts = Inr (result(Mushroom \<mapsto> m'))
     \<and> collection m' =
          collection m + (case map_of (otherCollection m) ''Mushroom'' of
                            Some v \<Rightarrow> v | None \<Rightarrow> 0)
     \<and> otherCollection m' =
          AList.delete ''Mushroom''
            (AList.update ''Mooshroom''
               (case map_of (otherCollection m) ''Mushroom'' of Some v \<Rightarrow> v | None \<Rightarrow> 0)
               (otherCollection m))
     \<and> coinSources m' = coinSources m
     \<and> npcCoins m' = npcCoins m
     \<and> DetailedDrops.fortune m' = DetailedDrops.fortune m"
  apply (rule exI [of _ "afterSeeds T opts"])
  apply (rule exI [of _ "CalculateDetailedDrops T Mushroom opts"])
  apply (rule exI [of _ "countMooshroom (CalculateDetailedDrops T Mushroom opts)"])
  apply (simp add: seedFolding_detailedPerCrop afterSeeds_Mushroom
      CalculateDetailedAverageDrops_eq countMooshroom_frame mooshroomFolding_def)
  apply (simp add: countMooshroom_def Let_def)
  done

theorem mooshroom_folding_frame_witness:
  "mooshroom sampleOptions \<and>
   (\<exists>result m m'.
     seedFolding sampleOptions (detailedPerCrop sampleTables sampleOptions) = Inr result
     \<and> result Mushroom = Some m
     \<and> mooshroomFolding sampleOptions result = Inr (result(Mushroom \<mapsto> m'))
     \<and> CalculateDetailedAverageDrops sampleTables sampleOptions = Inr (result(Mushroom \<mapsto> m'))
     \<and> collection m' =
          collection m + (case map_of (otherCollection m) ''Mushroom'' of
                            Some v \<Rightarrow> v | None \<Rightarrow> 0)
     \<and> otherCollection m' =
          AList.delete ''Mushroom''
            (AList.update ''Mooshroom''
               (case map_of (otherCollection m) ''Mushroom'' of Some v \<Rightarrow> v | None \<Rightarrow> 0)
               (otherCollection m))
     \<and> coinSources m' = coinSources m
     \<and> npcCoins m' = npcCoins m
     \<and> DetailedDrops.fortune m' = DetailedDrops.fortune m)"
proof
  show flag: "mooshroom sampleOptions"
    by (simp add: sampleOptions_def)
  show "\<exists>result m m'.
     seedFolding sampleOptions (detailedPerCrop sampleTables sampleOptions) = Inr result
     \<and> result Mushroom = Some m
     \<and> mooshroomFolding sampleOptions result = Inr (result(Mushroom \<mapsto> m'))
     \<and> CalculateDetailedAverageDrops sampleTables sampleOptions = Inr (result(Mushroom \<mapsto> m'))
     \<and> collection m' =
          collection m + (case map_of (otherCollection m) ''Mushroom'' of
                            Some v \<Rightarrow> v | None \<Rightarrow> 0)
     \<and> otherCollection m' =
          AList.delete ''Mushroom''
            (AList.update ''Mooshroom''
               (case map_of (otherCollection m) ''Mushroom'' of Some v \<Rightarrow> v | None \<Rightarrow> 0)
               (otherCollection m))
     \<and> coinSources m' = coinSources m
     \<and> npcCoins m' = npcCoins m
     \<and> DetailedDrops.fortune m' = DetailedDrops.fortune m"
    by (rule mooshroom_folding_frame [OF flag])
qed

text \<open>
  C2. What \<open>CalculateDetailedDrops\<close> does for the five crops with a replenishment
  mechanic, a positive fortune and a non-negative \<open>blocksBroken\<close>: no entry of
  \<open>CROP_INFO\<close> has a \<open>replenish\<close> property, so the default \<open>false\<close> applies and the
  plain branch runs. \<open>coinSources['Collection']\<close> is \<open>round(base * npc)\<close>, not reduced
  (base and product in binary64), and \<open>otherCollection\<close> gets no \<open>'Replenish'\<close> key
  (unless the special crop has that very name).
\<close>

theorem detailed_drops_replenish_branch_dead:
  assumes "c \<in> {Carrot, CocoaBeans, NetherWart, Potato, Seeds}" and "0 < f" and "0 \<le> b"
    and "specialType (CalculateAverageSpecialCrops T b c 4) \<noteq> ''Replenish''"
  shows "map_of (otherCollection (CalculateDetailedDrops T c
            \<lparr>farmingFortune = Some f, blocksBroken = b, bountiful = bo, mooshroom = mo\<rparr>))
          ''Replenish'' = None
       \<and> map_of (coinSources (CalculateDetailedDrops T c
            \<lparr>farmingFortune = Some f, blocksBroken = b, bountiful = bo, mooshroom = mo\<rparr>))
          ''Collection'' =
            Some (Math_round (fl (baseDrops b (drops (CROP_INFO c)) f * npc (CROP_INFO c))))"
proof -
  from assms(1) consider "c = Carrot" | "c = CocoaBeans" | "c = NetherWart" | "c = Potato"
    | "c = Seeds"
    by auto
  then show ?thesis
    using assms(2-4)
    by cases
      (simp_all add: CalculateDetailedDrops_def Let_def emptyDrops_def GetCropInfo_def
        truthy_def breaks_def replenish_def update_conv')
qed

theorem detailed_drops_replenish_branch_dead_witness:
  "Potato \<in> {Carrot, CocoaBeans, NetherWart, Potato, Seeds}
   \<and> (0::real) < 200 \<and> (0::real) \<le> 100
   \<and> specialType (CalculateAverageSpecialCrops sampleTables 100 Potato 4) \<noteq> ''Replenish''
   \<and> map_of (otherCollection (CalculateDetailedDrops sampleTables Potato
         \<lparr>farmingFortune = Some 200, blocksBroken = 100, bountiful = False, mooshroom = False\<rparr>))
       ''Replenish'' = None
   \<and> map_of (coinSources (CalculateDetailedDrops sampleTables Potato
         \<lparr>farmingFortune = Some 200, blocksBroken = 100, bountiful = False, mooshroom = False\<rparr>))
       ''Collection'' = Some 2700"
proof -
  have "Math_round (fl (baseDrops 100 (drops (CROP_INFO Potato)) 200 * npc (CROP_INFO Potato)))
      = 2700"
    by (simp add: baseDrops_def Math_round_def fl_eval)
  with detailed_drops_replenish_branch_dead [of Potato 200 100 sampleTables False False]
  show ?thesis
    by (simp add: sampleTables_def)
qed

text \<open>
  C3, as the code has it. \<open>GetFortuneRequiredForCollection\<close> has no special case for a
  zero divisor. Every crop of the table has a positive drops-per-break, so the divisor
  \<open>drops * blocksBroken\<close> is zero exactly when \<open>blocksBroken\<close> is; then the quotient is
  an infinity or NaN and \<open>Math.ceil\<close> passes it on. The result is a finite number if and
  only if \<open>blocksBroken\<close> is not zero.
\<close>

theorem fortune_required_finite_iff:
  "isFinite (GetFortuneRequiredForCollection T opts) = (fr_blocksBroken opts \<noteq> 0)"
  by (cases "fr_crop opts")
     (simp_all add: GetFortuneRequiredForCollection_def Let_def GetCropInfo_def js_divide_def)

text \<open>
  With zero blocks broken and a target collection of 100 wheat the result is plus
  infinity, and with a target of 0 it is NaN: no sentinel is returned.
\<close>

theorem fortune_required_zero_blocks:
  "GetFortuneRequiredForCollection sampleTables
     \<lparr>fr_blocksBroken = 0, fr_crop = Wheat, fr_collection = 100,
      useDicers = None, useMooshroom = None\<rparr> = PosInfinity
   \<and> GetFortuneRequiredForCollection sampleTables
     \<lparr>fr_blocksBroken = 0, fr_crop = Wheat, fr_collection = 0,
      useDicers = None, useMooshroom = None\<rparr> = NaN"
  by (simp add: GetFortuneRequiredForCollection_def Let_def GetCropInfo_def js_divide_def)


section \<open>Properties of the fortune aggregator\<close>

lemma foldl_plus_sum_list: "foldl (\<lambda>a b. a + b) (a::real) xs = a + sum_list xs"
  by (induction xs arbitrary: a) simp_all

lemma sumValues_sum_list: "sumValues xs = sum_list (map snd xs)"
  by (simp add: sumValues_def foldl_plus_sum_list)

lemma applyWrite_pair: "applyWrite (bd, s) (k, v) = (AList.update k v bd, s + v)"
  by (simp add: applyWrite_def addFortune_def)

lemma addIfPositive_writes:
  "addIfPositive l v st = foldl applyWrite st (writeIfPositive l v)"
  by (simp add: addIfPositive_def writeIfPositive_def applyWrite_def)

lemma enchantStep_writes:
  "enchantStep T c st e = foldl applyWrite st (enchantWrites T c e)"
  by (cases e)
     (simp add: enchantStep_def enchantWrites_def addIfPositive_writes applyWrite_def
        split: option.splits)

lemma enchant_loop_writes:
  "foldl (enchantStep T c) st es = foldl applyWrite st (concat (map (enchantWrites T c) es))"
  by (induction es arbitrary: st) (simp_all add: enchantStep_writes)

lemma milestoneStep_writes:
  "milestoneStep T this st = foldl applyWrite st (milestoneWrites T this)"
  by (simp add: milestoneStep_def milestoneWrites_def Let_def applyWrite_def addFortune_def
      split: option.splits)

lemma sumFortune_writes:
  "sumFortune T this = foldl applyWrite ([], 0) (fortuneWrites T this)"
  by (cases "farmingForDummies this")
     (simp_all add: sumFortune_def fortuneWrites_def Let_def addIfPositive_writes
        enchant_loop_writes milestoneStep_writes rarityStatsOf_def reforgeLabel_def)

lemma writes_sum:
  "snd (foldl applyWrite st ws) = snd st + sum_list (map snd ws)"
  by (induction ws arbitrary: st) (simp_all add: applyWrite_def addFortune_def)

lemma update_fresh:
  "k \<notin> fst ` set al \<Longrightarrow> AList.update k v al = al @ [(k, v)]"
  by (induction al) auto

lemma writes_distinct:
  "distinct (map fst (bd @ ws)) \<Longrightarrow> fst (foldl applyWrite (bd, s) ws) = bd @ ws"
proof (induction ws arbitrary: bd s)
  case Nil
  then show ?case by simp
next
  case (Cons w ws)
  have fresh: "fst w \<notin> fst ` set bd"
    using Cons.prems by auto
  have "distinct (map fst ((bd @ [w]) @ ws))"
    using Cons.prems by simp
  from Cons.IH [OF this, of "s + snd w"] fresh show ?case
    by (cases w) (simp add: applyWrite_pair update_fresh)
qed

lemma writes_lookup:
  "map_of (fst (foldl applyWrite (bd, s) ws)) l =
     (case map_of (rev ws) l of Some v \<Rightarrow> Some v | None \<Rightarrow> map_of bd l)"
proof (induction ws arbitrary: bd s)
  case Nil
  then show ?case by simp
next
  case (Cons w ws)
  show ?case
    by (cases w)
       (simp add: applyWrite_pair Cons.IH update_conv' map_add_def
         split: option.splits)
qed

lemma sumFortune_ignores_result:
  "sumFortune T (this\<lparr>fortuneBreakdown := x, FarmingTool.fortune := y\<rparr>) = sumFortune T this"
  by (simp add: sumFortune_def milestoneStep_def Let_def cong: option.case_cong if_cong)

lemma fortuneWrites_ignores_result:
  "fortuneWrites T (this\<lparr>fortuneBreakdown := x, FarmingTool.fortune := y\<rparr>) = fortuneWrites T this"
  by (simp add: fortuneWrites_def milestoneWrites_def milestoneStep_def rarityStatsOf_def
      reforgeLabel_def Let_def cong: option.case_cong if_cong)

lemma rebuildTool_result:
  assumes "rebuildTool T it opts = Inr ft"
  shows "FarmingTool.fortune ft = snd (sumFortune T ft)"
    and "fortuneBreakdown ft = fst (sumFortune T ft)"
  using assms
  by (auto simp add: rebuildTool_def Let_def sumFortune_ignores_result split: if_splits)

lemmas sample_defs =
  sampleTables_def sampleItem_def sampleHoe_def sampleEnchants_def sampleReforges_def

lemmas aggregator_defs =
  rebuildTool_def readProperty_def ownValue_def objectPrototypeKeys_def setReforge_def
  sumFortune_def milestoneStep_def enchantStep_def addIfPositive_def addFortune_def
  statOr0_def getFarmingAbilityFortune_def attributeNumber_def getCounter_def
  getCultivating_def isMathematicalHoe_def Let_def


lemma sample_build:
  "rebuildTool sampleTables sampleItem None =
     Inr \<lparr>item = sampleItem, crop = Some Wheat, tool = Some sampleHoe,
          rarity = Some ''EPIC'',
          counter = None, cultivating = 0,
          reforge = sampleReforges ''blessed'',
          reforgeStats = Some \<lparr>stats = [FarmingFortune \<mapsto> 10]\<rparr>,
          farmingForDummies = Some 5, recombobulated = False,
          fortune = 110,
          fortuneBreakdown = [(''Tool Bonus'', 10), (''Tool Stats'', 25), (''Blessed'', 10),
            (''Farming for Dummies'', 5), (''Tool Ability'', 20), (''Harvesting'', 25),
            (''Turbo'', 15)],
          options = None\<rparr>"
  by (simp add: sample_defs aggregator_defs)

lemma recombobulated_build:
  "rebuildTool sampleTables recombobulatedItem None =
     Inr \<lparr>item = recombobulatedItem, crop = Some Wheat, tool = Some sampleHoe,
          rarity = Some ''LEGENDARY'', counter = None, cultivating = 0,
          reforge = sampleReforges ''blessed'',
          reforgeStats = Some \<lparr>stats = [FarmingFortune \<mapsto> 13]\<rparr>,
          farmingForDummies = Some 5, recombobulated = True,
          fortune = 113,
          fortuneBreakdown = [(''Tool Bonus'', 10), (''Tool Stats'', 25), (''Blessed'', 13),
            (''Farming for Dummies'', 5), (''Tool Ability'', 20), (''Harvesting'', 25),
            (''Turbo'', 15)],
          options = None\<rparr>"
  by (simp add: sample_defs recombobulatedItem_def aggregator_defs)

text \<open>
  C1, as the code has it. When the aggregator accepts the item, the fortune total is the
  sum of all the amounts it added during the evaluation. The breakdown is indexed by
  label and a later assignment to a label replaces the earlier one, so the total equals
  the sum of the values of the breakdown whenever no two contributions were written under
  the same label.
\<close>

theorem fortune_total_and_breakdown:
  assumes "rebuildTool T it opts = Inr ft"
  shows "FarmingTool.fortune ft = sum_list (map snd (fortuneWrites T ft))
     \<and> (distinct (map fst (fortuneWrites T ft)) \<longrightarrow>
          FarmingTool.fortune ft = sumValues (fortuneBreakdown ft))"
proof
  show total: "FarmingTool.fortune ft = sum_list (map snd (fortuneWrites T ft))"
    using rebuildTool_result(1) [OF assms] by (simp add: sumFortune_writes writes_sum)
  show "distinct (map fst (fortuneWrites T ft)) \<longrightarrow>
          FarmingTool.fortune ft = sumValues (fortuneBreakdown ft)"
  proof
    assume "distinct (map fst (fortuneWrites T ft))"
    then have "fst (foldl applyWrite ([], 0) (fortuneWrites T ft)) = fortuneWrites T ft"
      using writes_distinct [of "[]" "fortuneWrites T ft" 0] by simp
    then have "fortuneBreakdown ft = fortuneWrites T ft"
      using rebuildTool_result(2) [OF assms] by (simp add: sumFortune_writes)
    with total show "FarmingTool.fortune ft = sumValues (fortuneBreakdown ft)"
      by (simp add: sumValues_sum_list)
  qed
qed


theorem fortune_total_and_breakdown_witness:
  "rebuildTool sampleTables sampleItem None =
     Inr (projr (rebuildTool sampleTables sampleItem None))
   \<and> distinct (map fst (fortuneWrites sampleTables (projr (rebuildTool sampleTables sampleItem None))))
   \<and> FarmingTool.fortune (projr (rebuildTool sampleTables sampleItem None)) = 110
   \<and> sumValues (fortuneBreakdown (projr (rebuildTool sampleTables sampleItem None))) = 110"
proof -
  let ?ft = "projr (rebuildTool sampleTables sampleItem None)"
  have built: "rebuildTool sampleTables sampleItem None = Inr ?ft"
    by (simp add: sample_build)
  have writes: "fortuneWrites sampleTables ?ft = fortuneBreakdown ?ft"
    by (simp add: sample_build fortuneWrites_def writeIfPositive_def rarityStatsOf_def
        reforgeLabel_def enchantWrites_def milestoneWrites_def sample_defs aggregator_defs)
  have labels: "distinct (map fst (fortuneWrites sampleTables ?ft))"
    unfolding writes by (simp add: sample_build)
  have total: "FarmingTool.fortune ?ft = 110"
    by (simp add: sample_build)
  from fortune_total_and_breakdown [OF built] labels total built show ?thesis
    by simp
qed

text \<open>
  A wheat hoe with Dedication I and a wheat milestone count of 10, on tables where
  Dedication has a flat row and a multiplied row: both amounts, 1 and 5, are added to the
  total, and the second assignment to the label \<open>'Dedication'\<close> replaces the first. The
  total is 76 and the values of the breakdown sum to 75.
\<close>

theorem fortune_total_exceeds_breakdown:
  "\<not> isl (rebuildTool sampleTables dedicationItem (Some samplePlayer))
   \<and> FarmingTool.fortune (projr (rebuildTool sampleTables dedicationItem (Some samplePlayer))) = 76
   \<and> sumValues (fortuneBreakdown (projr (rebuildTool sampleTables dedicationItem (Some samplePlayer)))) = 75"
  by (simp add: sample_defs samplePlayer_def dedicationItem_def aggregator_defs sumValues_def)

text \<open>
  C4. What \<open>rebuildTool\<close> (and so the constructor) does with the identifier of the item.
  It tests \<open>FARMING_TOOLS[item.skyblockId]\<close> for truthiness, with no test that the
  identifier is an own key of the table. For an identifier such as \<open>toString\<close>, which is
  not a key of the table, the lookup finds the member inherited from
  \<open>Object.prototype\<close>; no error is thrown, a tool is returned, and for an item without
  lore, enchantments and attributes its fortune is 0 with an empty breakdown;
  \<open>IsValidFarmingTool\<close> answers true. For an identifier that is neither a key of the
  table nor the name of an inherited member, the error \<open>Unknown farming tool\<close> is thrown
  with the name and identifier of the item; for a key of the table a tool is returned.
\<close>

theorem inherited_identifier_accepted:
  "(FARMING_TOOLS T ''toString'' = None \<longrightarrow>
      (\<exists>ft. rebuildTool T (toStringItem n) opts = Inr ft
            \<and> FarmingTool.fortune ft = 0 \<and> fortuneBreakdown ft = [])
      \<and> IsValidFarmingTool T (toStringItem n))
   \<and> (FARMING_TOOLS T (skyblockId it) = None \<and> skyblockId it \<notin> set objectPrototypeKeys \<longrightarrow>
        rebuildTool T it opts = Inl (UnknownFarmingTool (itemName it) (skyblockId it)))
   \<and> (FARMING_TOOLS T (skyblockId it) \<noteq> None \<longrightarrow> (\<exists>ft. rebuildTool T it opts = Inr ft))"
proof (intro conjI impI)
  assume none: "FARMING_TOOLS T ''toString'' = None"
  then have found: "readProperty (FARMING_TOOLS T) ''toString'' = Inherited"
    by (simp add: readProperty_def objectPrototypeKeys_def)
  then show "IsValidFarmingTool T (toStringItem n)"
    by (simp add: IsValidFarmingTool_def toStringItem_def)
  show "\<exists>ft. rebuildTool T (toStringItem n) opts = Inr ft
            \<and> FarmingTool.fortune ft = 0 \<and> fortuneBreakdown ft = []"
    using found
    by (simp add: rebuildTool_def toStringItem_def ownValue_def setReforge_def sumFortune_def
        milestoneStep_def addIfPositive_def statOr0_def attributeNumber_def
        isMathematicalHoe_def Let_def split: option.splits)
next
  assume "FARMING_TOOLS T (skyblockId it) = None \<and> skyblockId it \<notin> set objectPrototypeKeys"
  then show "rebuildTool T it opts = Inl (UnknownFarmingTool (itemName it) (skyblockId it))"
    by (simp add: rebuildTool_def readProperty_def)
next
  assume "FARMING_TOOLS T (skyblockId it) \<noteq> None"
  then show "\<exists>ft. rebuildTool T it opts = Inr ft"
    by (auto simp add: rebuildTool_def readProperty_def Let_def)
qed

theorem inherited_identifier_accepted_witness:
  "FARMING_TOOLS sampleTables ''toString'' = None
   \<and> (\<exists>ft. rebuildTool sampleTables (toStringItem ''Stick'') None = Inr ft
          \<and> FarmingTool.fortune ft = 0 \<and> fortuneBreakdown ft = [])
   \<and> IsValidFarmingTool sampleTables (toStringItem ''Stick'')
   \<and> FARMING_TOOLS sampleTables (skyblockId unknownItem) = None
   \<and> skyblockId unknownItem \<notin> set objectPrototypeKeys
   \<and> rebuildTool sampleTables unknownItem None = Inl (UnknownFarmingTool ''Stick'' ''STICK'')
   \<and> FARMING_TOOLS sampleTables (skyblockId sampleItem) \<noteq> None
   \<and> (\<exists>ft. rebuildTool sampleTables sampleItem None = Inr ft)"
  using inherited_identifier_accepted [of sampleTables "''Stick''" None unknownItem]
    inherited_identifier_accepted [of sampleTables "''Stick''" None sampleItem]
  by (simp add: sampleTables_def sampleItem_def unknownItem_def objectPrototypeKeys_def)

lemma rebuildTool_fields:
  assumes "rebuildTool T it opts = Inr ft"
  shows "tool ft = ownValue (readProperty (FARMING_TOOLS T) (skyblockId it))"
    and "crop ft = map_option toolCrop (tool ft)"
    and "item ft = it"
    and "options ft = opts"
    and "recombobulated ft = (attributes it ''rarity_upgrades'' = Some ''1'')"
    and "reforge ft = REFORGES T (case attributes it ''modifier'' of Some m \<Rightarrow> m | None \<Rightarrow> [])"
    and "farmingForDummies ft = attributeNumber T it ''farming_for_dummies_count''"
    and "rarity ft = (case lore it of None \<Rightarrow> None | Some ls \<Rightarrow> GetRarityFromLore T ls)"
  using assms
  by (auto simp add: rebuildTool_def setReforge_def Let_def split: if_splits)

lemma breakdown_lookup:
  assumes "rebuildTool T it opts = Inr ft"
  shows "map_of (fortuneBreakdown ft) l = map_of (rev (fortuneWrites T ft)) l"
  using rebuildTool_result(2) [OF assms] writes_lookup [of "[]" 0 "fortuneWrites T ft" l]
  by (simp add: sumFortune_writes split: option.splits)

lemma tool_stats_lookup:
  assumes "reforgeLabel this \<noteq> ''Tool Stats''"
  shows "map_of (rev (fortuneWrites T this)) ''Tool Stats'' =
     (case map_of (rev (milestoneWrites T this)) ''Tool Stats'' of
        Some v \<Rightarrow> Some v
      | None \<Rightarrow>
          (case map_of (rev (concat (map (enchantWrites T (crop this))
                  (enchantments (item this))))) ''Tool Stats'' of
             Some v \<Rightarrow> Some v
           | None \<Rightarrow> map_of (writeIfPositive ''Tool Stats'' (rarityStatsOf T this)) ''Tool Stats''))"
proof -
  have other: "map_of (writeIfPositive l' v) ''Tool Stats'' = None" if "l' \<noteq> ''Tool Stats''" for l' v
    using that by (simp add: writeIfPositive_def)
  have single: "rev (writeIfPositive l' v) = writeIfPositive l' v" for l' v
    by (simp add: writeIfPositive_def)
  have ffd: "map_of (case farmingForDummies this of None \<Rightarrow> []
        | Some n \<Rightarrow> writeIfPositive ''Farming for Dummies'' n) ''Tool Stats'' = None"
    by (simp add: other split: option.splits)
  have ffd_rev: "rev (case farmingForDummies this of None \<Rightarrow> []
        | Some n \<Rightarrow> writeIfPositive ''Farming for Dummies'' n) =
      (case farmingForDummies this of None \<Rightarrow> []
        | Some n \<Rightarrow> writeIfPositive ''Farming for Dummies'' n)"
    by (simp add: single split: option.splits)
  show ?thesis
    using assms
    by (simp add: fortuneWrites_def map_add_def single ffd ffd_rev other
        cong: option.case_cong split: option.splits)
qed

text \<open>
  C5. Two items accepted by the aggregator with the same identifier, enchantments and
  attributes, except that the second has \<open>rarity_upgrades\<close> equal to \<open>"1"\<close> and the
  first has not, and that the rarity of the second is one tier above that of the first
  (\<open>PreviousRarity\<close> of the second is the first). The rarity-stat lookup of the
  recombobulated item gives the amount of the other item, and the two breakdowns hold the
  same value, or both none, under \<open>'Tool Stats'\<close>; the latter provided the reforge of
  the items does not itself carry the label \<open>'Tool Stats'\<close>, because the reforge row is
  read at the stated rarity.
\<close>

theorem recombobulated_tool_stats:
  assumes A: "rebuildTool T itA opts = Inr ftA" and B: "rebuildTool T itB opts = Inr ftB"
    and ident: "skyblockId itB = skyblockId itA"
    and ench: "enchantments itB = enchantments itA"
    and attrs: "attributes itB = (attributes itA)(''rarity_upgrades'' \<mapsto> ''1'')"
    and plain: "attributes itA ''rarity_upgrades'' \<noteq> Some ''1''"
    and tier: "PreviousRarity T (rarity ftB) = rarity ftA"
  shows "rarityStatsOf T ftB = rarityStatsOf T ftA
     \<and> (reforgeLabel ftA \<noteq> ''Tool Stats'' \<longrightarrow>
          map_of (fortuneBreakdown ftB) ''Tool Stats'' = map_of (fortuneBreakdown ftA) ''Tool Stats'')"
proof
  note fa = rebuildTool_fields [OF A] and fb = rebuildTool_fields [OF B]
  have tool_eq: "tool ftB = tool ftA"
    using fa(1) fb(1) ident by simp
  have recA: "\<not> recombobulated ftA" and recB: "recombobulated ftB"
    using fa(5) fb(5) attrs plain by simp_all
  show stats_eq: "rarityStatsOf T ftB = rarityStatsOf T ftA"
    using recA recB tier tool_eq by (simp add: rarityStatsOf_def cong: option.case_cong)
  show "reforgeLabel ftA \<noteq> ''Tool Stats'' \<longrightarrow>
          map_of (fortuneBreakdown ftB) ''Tool Stats'' = map_of (fortuneBreakdown ftA) ''Tool Stats''"
  proof
    assume label: "reforgeLabel ftA \<noteq> ''Tool Stats''"
    have crop_eq: "crop ftB = crop ftA"
      using fa(2) fb(2) tool_eq by simp
    have label_eq: "reforgeLabel ftB = reforgeLabel ftA"
      using fa(6) fb(6) attrs by (simp add: reforgeLabel_def)
    have ench_eq: "enchantments (item ftB) = enchantments (item ftA)"
      using fa(3) fb(3) ench by simp
    have mile_eq: "milestoneWrites T ftB = milestoneWrites T ftA"
      using fa(2,3,4) fb(2,3,4) ench tool_eq
      by (simp add: milestoneWrites_def milestoneStep_def Let_def cong: option.case_cong if_cong)
    have "map_of (rev (fortuneWrites T ftB)) ''Tool Stats'' =
          map_of (rev (fortuneWrites T ftA)) ''Tool Stats''"
      using label label_eq
      by (simp add: tool_stats_lookup stats_eq crop_eq ench_eq mile_eq cong: option.case_cong)
    then show "map_of (fortuneBreakdown ftB) ''Tool Stats'' =
               map_of (fortuneBreakdown ftA) ''Tool Stats''"
      by (simp add: breakdown_lookup [OF A] breakdown_lookup [OF B])
  qed
qed


theorem recombobulated_tool_stats_witness:
  "rebuildTool sampleTables sampleItem None =
     Inr (projr (rebuildTool sampleTables sampleItem None))
   \<and> rebuildTool sampleTables recombobulatedItem None =
     Inr (projr (rebuildTool sampleTables recombobulatedItem None))
   \<and> skyblockId recombobulatedItem = skyblockId sampleItem
   \<and> enchantments recombobulatedItem = enchantments sampleItem
   \<and> attributes recombobulatedItem = (attributes sampleItem)(''rarity_upgrades'' \<mapsto> ''1'')
   \<and> attributes sampleItem ''rarity_upgrades'' \<noteq> Some ''1''
   \<and> PreviousRarity sampleTables (rarity (projr (rebuildTool sampleTables recombobulatedItem None)))
       = rarity (projr (rebuildTool sampleTables sampleItem None))
   \<and> reforgeLabel (projr (rebuildTool sampleTables sampleItem None)) \<noteq> ''Tool Stats''
   \<and> map_of (fortuneBreakdown (projr (rebuildTool sampleTables recombobulatedItem None)))
         ''Tool Stats'' = Some 25
   \<and> map_of (fortuneBreakdown (projr (rebuildTool sampleTables sampleItem None)))
         ''Tool Stats'' = Some 25"
proof -
  let ?ftA = "projr (rebuildTool sampleTables sampleItem None)"
  let ?ftB = "projr (rebuildTool sampleTables recombobulatedItem None)"
  have A: "rebuildTool sampleTables sampleItem None = Inr ?ftA"
    by (simp add: sample_build)
  have B: "rebuildTool sampleTables recombobulatedItem None = Inr ?ftB"
    by (simp add: recombobulated_build)
  have ident: "skyblockId recombobulatedItem = skyblockId sampleItem"
    and ench: "enchantments recombobulatedItem = enchantments sampleItem"
    and attrs: "attributes recombobulatedItem =
          (attributes sampleItem)(''rarity_upgrades'' \<mapsto> ''1'')"
    by (simp_all add: recombobulatedItem_def)
  have plain: "attributes sampleItem ''rarity_upgrades'' \<noteq> Some ''1''"
    by (simp add: sampleItem_def)
  have "PreviousRarity sampleTables (Some ''LEGENDARY'') = Some ''EPIC''"
    by (simp add: sampleTables_def)
  then have tier: "PreviousRarity sampleTables (rarity ?ftB) = rarity ?ftA"
    by (simp add: sample_build recombobulated_build)
  have label: "reforgeLabel ?ftA \<noteq> ''Tool Stats''"
    by (simp add: sample_build reforgeLabel_def sampleReforges_def)
  have looked: "map_of (fortuneBreakdown ?ftA) ''Tool Stats'' = Some 25"
    by (simp add: sample_build)
  from recombobulated_tool_stats [OF A B ident ench attrs plain tier] label looked
  have "map_of (fortuneBreakdown ?ftB) ''Tool Stats'' = Some 25"
    by simp
  with A B ident ench attrs plain tier label looked show ?thesis
    by blast
qed







end
